theory Spec2Isabelle
  imports Main "HOL-Library.Word"
begin

section \<open>JavaScript strings\<close>

text \<open>
  A JavaScript string is a sequence of 16-bit code units. ASCII literals of the source are
  written \<open>ascii ''...''\<close>; other characters are given by their code unit.
\<close>

type_synonym jschar = "16 word"
type_synonym jstring = "jschar list"

definition ascii :: "string \<Rightarrow> jstring" where
  "ascii s = map of_char s"

text \<open>
  \<open>String.prototype.trim\<close> removes the ECMAScript WhiteSpace and LineTerminator code
  points from both ends.
\<close>

definition isWhiteSpace :: "jschar \<Rightarrow> bool" where
  "isWhiteSpace c \<longleftrightarrow>
     c \<in> set [0x0009, 0x000A, 0x000B, 0x000C, 0x000D, 0x0020, 0x00A0, 0x1680,
               0x2000, 0x2001, 0x2002, 0x2003, 0x2004, 0x2005, 0x2006, 0x2007,
               0x2008, 0x2009, 0x200A, 0x2028, 0x2029, 0x202F, 0x205F, 0x3000, 0xFEFF]"

definition trim :: "jstring \<Rightarrow> jstring" where
  "trim s = rev (dropWhile isWhiteSpace (rev (dropWhile isWhiteSpace s)))"

text \<open>\<open>s.split(sep)\<close> for a one-unit separator: never the empty array.\<close>

fun split :: "jschar \<Rightarrow> jstring \<Rightarrow> jstring list" where
  "split sep [] = [[]]"
| "split sep (c # cs) =
     (if c = sep then [] # split sep cs
      else (case split sep cs of
              [] \<Rightarrow> [[c]]
            | p # ps \<Rightarrow> (c # p) # ps))"

fun startsWith :: "jstring \<Rightarrow> jstring \<Rightarrow> bool" where
  "startsWith s [] = True"
| "startsWith [] (p # ps) = False"
| "startsWith (c # cs) (p # ps) = (c = p \<and> startsWith cs ps)"

text \<open>Truthiness of a string: the empty string is falsy.\<close>

definition truthy :: "jstring \<Rightarrow> bool" where
  "truthy s \<longleftrightarrow> s \<noteq> []"

section \<open>types.ts and constants.ts\<close>

datatype Role = USER | MODEL

record Message =
  role :: Role
  msg_text :: jstring

datatype LanguageCode = en_US | fr_FR | ar_SA

fun code_string :: "LanguageCode \<Rightarrow> jstring" where
  "code_string en_US = ascii ''en-US''"
| "code_string fr_FR = ascii ''fr-FR''"
| "code_string ar_SA = ascii ''ar-SA''"

datatype Direction = ltr | rtl

record LanguageOption =
  code :: LanguageCode
  name :: jstring
  dir :: Direction

definition SUPPORTED_LANGUAGES :: "LanguageOption list" where
  "SUPPORTED_LANGUAGES =
     [\<lparr>code = en_US, name = ascii ''English'', dir = ltr\<rparr>,
      \<lparr>code = fr_FR, name = ascii ''Fran'' @ [0xE7] @ ascii ''ais'', dir = ltr\<rparr>,
      \<lparr>code = ar_SA, name = [0x627, 0x644, 0x639, 0x631, 0x628, 0x64A, 0x629], dir = rtl\<rparr>]"

section \<open>The chat service module (unnamed/part_000)\<close>

text \<open>The values this module throws: \<open>Error m\<close> is \<open>new Error(m)\<close>.\<close>

datatype js_error = Error (message: jstring)

record GoogleGenAI =
  apiKey :: jstring

text \<open>
  A chat object as the module creates it. \<open>chat_id\<close> stands for the object's identity:
  every \<open>chats.create\<close> gives a new object.
\<close>

record Chat =
  chat_id :: nat
  model :: jstring
  systemInstruction :: jstring

text \<open>The module's two variables, and the number of chat objects created so far.\<close>

record service =
  ai :: "GoogleGenAI option"
  chat :: "Chat option"
  created :: nat

text \<open>The module as loaded: \<open>let ai = null; let chat = null\<close>. Nothing is read or thrown.\<close>

definition service_init :: service where
  "service_init = \<lparr>ai = None, chat = None, created = 0\<rparr>"

text \<open>
  What the program finds around it: \<open>process.env.API_KEY\<close> (possibly undefined),
  whether \<open>window.SpeechRecognition || window.webkitSpeechRecognition\<close> exists, and
  \<open>window.speechSynthesis\<close> with the voices \<open>getVoices()\<close> returns (\<open>None\<close> when the
  browser has no speech synthesis).
\<close>

record SpeechSynthesisVoice =
  voice_name :: jstring
  lang :: jstring

record environment =
  API_KEY :: "jstring option"
  SpeechRecognitionAPI :: bool
  speechSynthesis :: "SpeechSynthesisVoice list option"

definition api_key_missing :: js_error where
  "api_key_missing = Error (ascii ''API_KEY environment variable not set'')"

definition getAI :: "environment \<Rightarrow> service \<Rightarrow> js_error + (GoogleGenAI \<times> service)" where
  "getAI env svc =
     (case ai svc of
        Some a \<Rightarrow> Inr (a, svc)
      | None \<Rightarrow>
          (case API_KEY env of
             None \<Rightarrow> Inl api_key_missing
           | Some k \<Rightarrow>
               if \<not> truthy k then Inl api_key_missing
               else let a = \<lparr>apiKey = k\<rparr> in Inr (a, svc\<lparr>ai := Some a\<rparr>)))"

definition getSystemInstruction :: "jstring \<Rightarrow> jstring" where
  "getSystemInstruction languageName =
     ascii ''You are Poly, a friendly and encouraging language tutor. The user wants to learn '' @
     languageName @
     ascii ''. Your primary role is to have a natural conversation with them in '' @
     languageName @
     ascii ''.'' @ [0xA] @
     ascii ''- Your responses MUST be primarily in '' @
     languageName @
     ascii ''.'' @ [0xA] @
     ascii ''- If the user makes a mistake in grammar or vocabulary, gently correct them. First provide the corrected sentence in '' @
     languageName @
     ascii '', then provide a very short, simple explanation in English inside parentheses. For example: '' @
     [0x22, 0x623, 0x646, 0x627] @ ascii '' '' @
     [0x623, 0x630, 0x647, 0x628] @ ascii '' '' @
     [0x625, 0x644, 0x649] @ ascii '' '' @
     [0x627, 0x644, 0x645, 0x643, 0x62A, 0x628, 0x629] @
     ascii ''. (The verb conjugation was slightly off. '' @
     [0x27, 0x623, 0x630, 0x647, 0x628, 0x27] @
     ascii '' is correct for '' @ [0x27] @ ascii ''I go'' @ [0x27] @ ascii ''.)'' @
     [0x22, 0xA] @
     ascii ''- Keep your responses concise and conversational to encourage the user to speak.'' @
     [0xA] @
     ascii ''- Occasionally, introduce new vocabulary or suggest a simple conversational scenario (e.g., '' @
     [0x22] @ ascii ''Let'' @ [0x27] @ ascii ''s pretend you are ordering a coffee.'' @ [0x22] @
     ascii '').'' @ [0xA] @
     ascii ''- Your main language of conversation is '' @
     languageName @
     ascii ''. Only provide explanations in English.'' @ [0xA]"

definition startChatSession :: "environment \<Rightarrow> service \<Rightarrow> jstring \<Rightarrow> js_error + service" where
  "startChatSession env svc languageName =
     (case getAI env svc of
        Inl e \<Rightarrow> Inl e
      | Inr (genAI, svc') \<Rightarrow>
          Inr (svc'\<lparr>chat := Some \<lparr>chat_id = created svc',
                                   model = ascii ''gemini-2.5-flash'',
                                   systemInstruction = getSystemInstruction languageName\<rparr>,
                     created := Suc (created svc')\<rparr>))"

definition not_initialized :: js_error where
  "not_initialized = Error (ascii ''Chat session not initialized. Call startChatSession first.'')"

definition client_apology :: jstring where
  "client_apology = ascii ''Sorry, I encountered an error. Please try again.''"

text \<open>
  \<open>sendMessageToAI\<close> reads the module variable \<open>chat\<close> when it is called; the first
  argument is that value. The provider is outside the program: \<open>outcome\<close> is what
  \<open>chat.sendMessage\<close> settles with, \<open>Inl\<close> a rejection and \<open>Inr\<close> the reply text.
  \<open>Inl\<close> of the result is a rejected promise.
\<close>

definition sendMessageToAI :: "Chat option \<Rightarrow> jstring \<Rightarrow> js_error + jstring \<Rightarrow> js_error + jstring" where
  "sendMessageToAI ch msg outcome =
     (case ch of
        None \<Rightarrow> Inl not_initialized
      | Some c \<Rightarrow>
          (case outcome of
             Inr result_text \<Rightarrow> Inr result_text
           | Inl e \<Rightarrow> Inr client_apology))"

section \<open>The application component (unnamed/part_001)\<close>

subsection \<open>Web Speech API values\<close>

record SpeechRecognitionAlternative =
  transcript :: jstring

record SpeechRecognitionResult =
  isFinal :: bool
  alternatives :: "SpeechRecognitionAlternative list"

record SpeechRecognitionEvent =
  results :: "SpeechRecognitionResult list"

text \<open>A recognition object as \<open>setupRecognition\<close> configures it; \<open>rec_id\<close> is its identity.\<close>

record SpeechRecognition =
  rec_id :: nat
  rec_lang :: jstring
  interimResults :: bool
  continuous :: bool

record SpeechSynthesisUtterance =
  utter_text :: jstring
  voice :: "SpeechSynthesisVoice option"
  rate :: nat
  pitch :: nat

subsection \<open>Component state\<close>

text \<open>
  A call of \<open>sendMessageToAI\<close> whose promise has not settled yet: the text sent and the
  value the module variable \<open>chat\<close> had when the call was made.
\<close>

record pending_call =
  sent_text :: jstring
  sent_chat :: "Chat option"

text \<open>
  The \<open>useState\<close> and \<open>useRef\<close> cells of \<open>App\<close>, the two attributes of
  \<open>document.documentElement\<close> it writes, the service module's variables, and what the
  component has handed to the platform: the unsettled chat calls, the delays of the
  \<open>setTimeout\<close> callbacks not yet run, and the utterances given to
  \<open>speechSynthesis.speak\<close>.
\<close>

record app =
  conversation :: "Message list"
  selectedLanguage :: LanguageOption
  isRecording :: bool
  isProcessing :: bool
  error :: "jstring option"
  recognitionRef :: "SpeechRecognition option"
  recognitions_created :: nat
  documentLang :: "jstring option"
  documentDir :: "Direction option"
  svc :: service
  pending :: "pending_call list"
  timers :: "nat list"
  spoken :: "SpeechSynthesisUtterance list"

text \<open>The first render, before any effect has run.\<close>

definition initial_state :: app where
  "initial_state =
     \<lparr>conversation = [], selectedLanguage = SUPPORTED_LANGUAGES ! 0,
      isRecording = False, isProcessing = False, error = None,
      recognitionRef = None, recognitions_created = 0,
      documentLang = None, documentDir = None,
      svc = service_init, pending = [], timers = [], spoken = []\<rparr>"

definition hyphen :: jschar where
  "hyphen = 0x2D"

subsection \<open>Effects and handlers\<close>

text \<open>
  A handler or effect that can throw after it has already written state returns
  \<open>Inl (e, s)\<close>: the thrown value and the state at the throw.
\<close>

type_synonym outcome = "(js_error \<times> app) + app"

text \<open>The effect on \<open>[selectedLanguage]\<close>.\<close>

definition languageEffect :: "environment \<Rightarrow> app \<Rightarrow> outcome" where
  "languageEffect env s =
     (let s1 = s\<lparr>documentLang := Some (split hyphen (code_string (code (selectedLanguage s))) ! 0),
                 documentDir := Some (dir (selectedLanguage s))\<rparr>
      in case startChatSession env (svc s1) (name (selectedLanguage s1)) of
           Inl e \<Rightarrow> Inl (e, s1)
         | Inr sv \<Rightarrow> Inr (s1\<lparr>svc := sv, conversation := []\<rparr>))"

definition setupRecognition :: "environment \<Rightarrow> app \<Rightarrow> app" where
  "setupRecognition env s =
     (if \<not> SpeechRecognitionAPI env
      then s\<lparr>error := Some (ascii ''Speech recognition is not supported in your browser.'')\<rparr>
      else s\<lparr>recognitionRef :=
                 Some \<lparr>rec_id = recognitions_created s,
                       rec_lang = code_string (code (selectedLanguage s)),
                       interimResults = True,
                       continuous = False\<rparr>,
               recognitions_created := Suc (recognitions_created s)\<rparr>)"

text \<open>\<open>recognition.onend\<close> and \<open>recognition.onerror\<close>, as \<open>setupRecognition\<close> installs them.\<close>

definition onend :: "app \<Rightarrow> app" where
  "onend s = s\<lparr>isRecording := False\<rparr>"

definition onerror :: "app \<Rightarrow> jstring \<Rightarrow> app" where
  "onerror s event_error =
     s\<lparr>error := Some (ascii ''Speech recognition error: '' @ event_error),
       isRecording := False\<rparr>"

text \<open>
  The voice \<open>speak\<close> puts on the utterance: \<open>None\<close> leaves \<open>utterance.voice\<close> unset, which
  is the platform's default voice.
\<close>

definition speak_voice :: "SpeechSynthesisVoice list \<Rightarrow> LanguageCode \<Rightarrow> SpeechSynthesisVoice option" where
  "speak_voice voices c =
     (case find (\<lambda>v. lang v = code_string c) voices of
        Some v \<Rightarrow> Some v
      | None \<Rightarrow>
          (let langPrefix = split hyphen (code_string c) ! 0
           in find (\<lambda>v. startsWith (lang v) langPrefix) voices))"

text \<open>
  \<open>speak\<close> reads \<open>selectedLanguage.code\<close> from the render it was created in; the second
  argument is that code.
\<close>

definition speak :: "environment \<Rightarrow> LanguageCode \<Rightarrow> app \<Rightarrow> jstring \<Rightarrow> app" where
  "speak env c s txt =
     (case speechSynthesis env of
        None \<Rightarrow> s
      | Some voices \<Rightarrow>
          s\<lparr>spoken := spoken s @
               [\<lparr>utter_text = txt, voice = speak_voice voices c, rate = 1, pitch = 1\<rparr>]\<rparr>)"

text \<open>
  \<open>processAIResponse\<close> up to its \<open>await\<close>: the call of \<open>sendMessageToAI\<close> is made and
  its promise is outstanding.
\<close>

definition processAIResponse :: "app \<Rightarrow> jstring \<Rightarrow> app" where
  "processAIResponse s userText =
     s\<lparr>isProcessing := True, error := None,
       pending := pending s @ [\<lparr>sent_text = userText, sent_chat = chat (svc s)\<rparr>]\<rparr>"

definition controller_apology :: jstring where
  "controller_apology = ascii ''Sorry, I couldn't process that. Please try again.''"

text \<open>
  \<open>handleRecognitionResult\<close> is memoised with an empty dependency list, so the
  \<open>processAIResponse\<close> and \<open>speak\<close> it reaches are those of the first render, where
  \<open>selectedLanguage\<close> is \<open>SUPPORTED_LANGUAGES[0]\<close>.
\<close>

definition captured_code :: LanguageCode where
  "captured_code = code (SUPPORTED_LANGUAGES ! 0)"

text \<open>
  \<open>processAIResponse\<close> from its \<open>await\<close> on, when the \<open>i\<close>-th outstanding call settles;
  \<open>outcome\<close> is what the provider did with it.
\<close>

definition processAIResponse_resume :: "environment \<Rightarrow> app \<Rightarrow> nat \<Rightarrow> js_error + jstring \<Rightarrow> app" where
  "processAIResponse_resume env s i outcome =
     (if i < length (pending s) then
        (let p = pending s ! i;
             s1 = s\<lparr>pending := take i (pending s) @ drop (Suc i) (pending s)\<rparr>;
             s2 = (case sendMessageToAI (sent_chat p) (sent_text p) outcome of
                     Inr aiText \<Rightarrow>
                       speak env captured_code
                         (s1\<lparr>conversation := conversation s1 @ [\<lparr>role = MODEL, msg_text = aiText\<rparr>]\<rparr>)
                         aiText
                   | Inl e \<Rightarrow>
                       s1\<lparr>error := Some (if truthy (message e) then message e
                                          else ascii ''Failed to get response from AI.''),
                          conversation := conversation s1 @
                            [\<lparr>role = MODEL, msg_text = controller_apology\<rparr>]\<rparr>)
         in s2\<lparr>isProcessing := False\<rparr>)
      else s)"

text \<open>
  \<open>result[0].transcript\<close> for each result in turn: \<open>None\<close> when a result has no
  alternative, where reading \<open>transcript\<close> of \<open>undefined\<close> throws a TypeError.
\<close>

fun transcripts :: "SpeechRecognitionResult list \<Rightarrow> jstring list option" where
  "transcripts [] = Some []"
| "transcripts (r # rs) =
     (case alternatives r of
        [] \<Rightarrow> None
      | a # _ \<Rightarrow> (case transcripts rs of None \<Rightarrow> None | Some ts \<Rightarrow> Some (transcript a # ts)))"

text \<open>
  \<open>None\<close> is a TypeError thrown before any state is written: from the transcript
  computation, or from \<open>event.results[0].isFinal\<close> on an empty result list.
\<close>

definition handleRecognitionResult :: "app \<Rightarrow> SpeechRecognitionEvent \<Rightarrow> app option" where
  "handleRecognitionResult s event =
     (case transcripts (results event) of
        None \<Rightarrow> None
      | Some ts \<Rightarrow>
          (let transcript = concat ts
           in case results event of
                [] \<Rightarrow> None
              | r0 # _ \<Rightarrow>
                  if isFinal r0 \<and> truthy (trim transcript)
                  then Some (processAIResponse
                               (s\<lparr>conversation := conversation s @
                                    [\<lparr>role = USER, msg_text = transcript\<rparr>]\<rparr>)
                               transcript)
                  else Some s))"

definition microphone_error :: jstring where
  "microphone_error = ascii ''Could not start microphone. Please check permissions.''"

text \<open>
  \<open>start_ok\<close> says whether \<open>recognition.start()\<close> returns (\<open>True\<close>) or throws; with no
  recognition object the optional call does nothing and cannot throw.
\<close>

definition try_start :: "app \<Rightarrow> bool \<Rightarrow> bool" where
  "try_start s start_ok \<longleftrightarrow> (case recognitionRef s of None \<Rightarrow> True | Some r \<Rightarrow> start_ok)"

definition handleRecordClick :: "environment \<Rightarrow> app \<Rightarrow> bool \<Rightarrow> app" where
  "handleRecordClick env s start_ok =
     (if isRecording s then s\<lparr>isRecording := False\<rparr>
      else if try_start s start_ok then s\<lparr>isRecording := True, error := None\<rparr>
      else (let s1 = setupRecognition env s in s1\<lparr>timers := timers s1 @ [250]\<rparr>))"

text \<open>The callback given to \<open>setTimeout\<close>, run when the first outstanding timer fires.\<close>

definition retry_callback :: "app \<Rightarrow> bool \<Rightarrow> app" where
  "retry_callback s start_ok =
     (let s1 = s\<lparr>timers := tl (timers s)\<rparr>
      in if try_start s1 start_ok then s1\<lparr>isRecording := True, error := None\<rparr>
         else s1\<lparr>error := Some microphone_error\<rparr>)"

definition handleClearConversation :: "environment \<Rightarrow> app \<Rightarrow> outcome" where
  "handleClearConversation env s =
     (let s1 = s\<lparr>conversation := []\<rparr>
      in case startChatSession env (svc s1) (name (selectedLanguage s1)) of
           Inl e \<Rightarrow> Inl (e, s1)
         | Inr sv \<Rightarrow> Inr (s1\<lparr>svc := sv\<rparr>))"

text \<open>
  The language selector's \<open>onChange\<close>: \<open>setSelectedLanguage\<close> with the same option is no
  state change and runs no effect; with another one the effect on \<open>[selectedLanguage]\<close>
  runs, then the one on \<open>[setupRecognition]\<close>.
\<close>

definition selectLanguage :: "environment \<Rightarrow> app \<Rightarrow> LanguageOption \<Rightarrow> outcome" where
  "selectLanguage env s l =
     (if l = selectedLanguage s then Inr s
      else (case languageEffect env (s\<lparr>selectedLanguage := l\<rparr>) of
              Inl x \<Rightarrow> Inl x
            | Inr s' \<Rightarrow> Inr (setupRecognition env s')))"

text \<open>Mounting the component: the first render, then the same two effects.\<close>

definition mount :: "environment \<Rightarrow> outcome" where
  "mount env =
     (case languageEffect env initial_state of
        Inl x \<Rightarrow> Inl x
      | Inr s \<Rightarrow> Inr (setupRecognition env s))"

subsection \<open>Events\<close>

text \<open>
  What can happen to the mounted component: a click on the record button (with the outcome
  of \<open>start()\<close>, should the handler call it), the retry timer firing (likewise), the three
  recognition callbacks, an outstanding chat call settling, a choice in the language
  selector, and a click on the clear button.
\<close>

datatype event =
    RecordClick bool
  | TimerFired bool
  | RecognitionResult SpeechRecognitionEvent
  | RecognitionEnd
  | RecognitionError jstring
  | ChatSettled nat "js_error + jstring"
  | LanguageChange LanguageOption
  | ClearClick

text \<open>
  The record button carries \<open>disabled={isProcessing}\<close>. An exception thrown by an event
  handler is reported and the component goes on with the state written so far; one
  thrown by an effect (\<open>Inl\<close>) takes the component down.
\<close>

fun step :: "environment \<Rightarrow> app \<Rightarrow> event \<Rightarrow> outcome" where
  "step env s (RecordClick start_ok) =
     Inr (if isProcessing s then s else handleRecordClick env s start_ok)"
| "step env s (TimerFired start_ok) =
     Inr (if timers s = [] then s else retry_callback s start_ok)"
| "step env s (RecognitionResult ev) =
     Inr (case handleRecognitionResult s ev of None \<Rightarrow> s | Some s' \<Rightarrow> s')"
| "step env s RecognitionEnd = Inr (onend s)"
| "step env s (RecognitionError m) = Inr (onerror s m)"
| "step env s (ChatSettled i outcome) = Inr (processAIResponse_resume env s i outcome)"
| "step env s (LanguageChange l) = selectLanguage env s l"
| "step env s ClearClick =
     Inr (case handleClearConversation env s of Inl (e, s') \<Rightarrow> s' | Inr s' \<Rightarrow> s')"

fun run :: "environment \<Rightarrow> app \<Rightarrow> event list \<Rightarrow> outcome" where
  "run env s [] = Inr s"
| "run env s (ev # evs) =
     (case step env s ev of
        Inl x \<Rightarrow> Inl x
      | Inr s' \<Rightarrow> run env s' evs)"

text \<open>The number of chat calls outstanding after a run, wherever it ended.\<close>

definition outstanding :: "outcome \<Rightarrow> nat" where
  "outstanding r = (case r of Inl (e, s) \<Rightarrow> length (pending s) | Inr s \<Rightarrow> length (pending s))"

section \<open>Reference values\<close>

text \<open>
  The claim about session instructions speaks of a fixed template with the language name
  filled in. \<open>instruction_template\<close> lists the fixed pieces of the template literal;
  \<open>instantiate\<close> puts the name between each two neighbours.
\<close>

definition instruction_template :: "jstring list" where
  "instruction_template =
     [ascii ''You are Poly, a friendly and encouraging language tutor. The user wants to learn '',
      ascii ''. Your primary role is to have a natural conversation with them in '',
      ascii ''.'' @ [0xA] @ ascii ''- Your responses MUST be primarily in '',
      ascii ''.'' @ [0xA] @
      ascii ''- If the user makes a mistake in grammar or vocabulary, gently correct them. First provide the corrected sentence in '',
      ascii '', then provide a very short, simple explanation in English inside parentheses. For example: '' @
      [0x22, 0x623, 0x646, 0x627] @ ascii '' '' @
      [0x623, 0x630, 0x647, 0x628] @ ascii '' '' @
      [0x625, 0x644, 0x649] @ ascii '' '' @
      [0x627, 0x644, 0x645, 0x643, 0x62A, 0x628, 0x629] @
      ascii ''. (The verb conjugation was slightly off. '' @
      [0x27, 0x623, 0x630, 0x647, 0x628, 0x27] @
      ascii '' is correct for '' @ [0x27] @ ascii ''I go'' @ [0x27] @ ascii ''.)'' @
      [0x22, 0xA] @
      ascii ''- Keep your responses concise and conversational to encourage the user to speak.'' @
      [0xA] @
      ascii ''- Occasionally, introduce new vocabulary or suggest a simple conversational scenario (e.g., '' @
      [0x22] @ ascii ''Let'' @ [0x27] @ ascii ''s pretend you are ordering a coffee.'' @ [0x22] @
      ascii '').'' @ [0xA] @
      ascii ''- Your main language of conversation is '',
      ascii ''. Only provide explanations in English.'' @ [0xA]]"

fun instantiate :: "jstring list \<Rightarrow> jstring \<Rightarrow> jstring" where
  "instantiate [] n = []"
| "instantiate [p] n = p"
| "instantiate (p # q # ps) n = p @ n @ instantiate (q # ps) n"

text \<open>
  The credential is absent when \<open>process.env.API_KEY\<close> is undefined or the empty string
  (both falsy). The service can create sessions when the client object already exists or
  the credential is there.
\<close>

definition api_key_absent :: "environment \<Rightarrow> bool" where
  "api_key_absent env \<longleftrightarrow> (case API_KEY env of None \<Rightarrow> True | Some k \<Rightarrow> \<not> truthy k)"

definition configured :: "environment \<Rightarrow> service \<Rightarrow> bool" where
  "configured env sv \<longleftrightarrow> ai sv \<noteq> None \<or> \<not> api_key_absent env"

text \<open>Concrete inputs used below.\<close>

definition voice_en :: SpeechSynthesisVoice where
  "voice_en = \<lparr>voice_name = ascii ''Samantha'', lang = ascii ''en-US''\<rparr>"

definition voice_fr :: SpeechSynthesisVoice where
  "voice_fr = \<lparr>voice_name = ascii ''Thomas'', lang = ascii ''fr-FR''\<rparr>"

definition env0 :: environment where
  "env0 = \<lparr>API_KEY = Some (ascii ''secret''), SpeechRecognitionAPI = True,
           speechSynthesis = Some [voice_en, voice_fr]\<rparr>"

definition env_nokey :: environment where
  "env_nokey = \<lparr>API_KEY = None, SpeechRecognitionAPI = True,
                speechSynthesis = Some [voice_en, voice_fr]\<rparr>"

definition chat0 :: Chat where
  "chat0 = \<lparr>chat_id = 0, model = ascii ''gemini-2.5-flash'',
            systemInstruction = getSystemInstruction (ascii ''English'')\<rparr>"

text \<open>
  The part of a supported locale code before its first hyphen, which is what
  \<open>code.split('-')[0]\<close> gives.
\<close>

definition primary_subtag :: "LanguageCode \<Rightarrow> jstring" where
  "primary_subtag c = (case c of en_US \<Rightarrow> ascii ''en'' | fr_FR \<Rightarrow> ascii ''fr'' | ar_SA \<Rightarrow> ascii ''ar'')"

text \<open>
  The running transcript of a recognition event as the claims describe it: the
  alternative-zero transcripts of all results, joined without separator; there is none when
  some result has no alternative. An event starts a turn when its first result is final
  and the running transcript, trimmed, is not empty.
\<close>

definition running_transcript :: "SpeechRecognitionEvent \<Rightarrow> jstring option" where
  "running_transcript ev =
     (if list_all (\<lambda>r. alternatives r \<noteq> []) (results ev)
      then Some (concat (map (\<lambda>r. transcript (hd (alternatives r))) (results ev)))
      else None)"

definition first_segment_final :: "SpeechRecognitionEvent \<Rightarrow> bool" where
  "first_segment_final ev \<longleftrightarrow> (case results ev of [] \<Rightarrow> False | r # _ \<Rightarrow> isFinal r)"

definition starts_turn :: "SpeechRecognitionEvent \<Rightarrow> bool" where
  "starts_turn ev \<longleftrightarrow>
     first_segment_final ev \<and>
     (case running_transcript ev of None \<Rightarrow> False | Some t \<Rightarrow> trim t \<noteq> [])"

text \<open>An event with one final result holding one alternative.\<close>

definition final_event :: "jstring \<Rightarrow> SpeechRecognitionEvent" where
  "final_event t = \<lparr>results = [\<lparr>isFinal = True, alternatives = [\<lparr>transcript = t\<rparr>]\<rparr>]\<rparr>"

text \<open>The recording state is IDLE when neither flag is set.\<close>

definition idle :: "app \<Rightarrow> bool" where
  "idle s \<longleftrightarrow> \<not> isRecording s \<and> \<not> isProcessing s"

text \<open>
  Chat objects are told apart by \<open>chat_id\<close>; the current one was created before the next
  one will be. A service is live once its client object exists.
\<close>

definition session_ids_fresh :: "service \<Rightarrow> bool" where
  "session_ids_fresh sv \<longleftrightarrow> (case chat sv of None \<Rightarrow> True | Some c \<Rightarrow> chat_id c < created sv)"

definition live :: "service \<Rightarrow> bool" where
  "live sv \<longleftrightarrow> ai sv \<noteq> None \<and> session_ids_fresh sv"

text \<open>The state a run ended in, thrown or not.\<close>

definition state_of :: "outcome \<Rightarrow> app" where
  "state_of r = (case r of Inl (e, s) \<Rightarrow> s | Inr s \<Rightarrow> s)"

text \<open>
  More concrete inputs: a platform whose only voice is one for Middle English (locale
  \<open>enm-GB\<close>), and the component as mounted in \<open>env0\<close>; mounting does not look at the voices.
\<close>

definition voice_enm :: SpeechSynthesisVoice where
  "voice_enm = \<lparr>voice_name = ascii ''Chaucer'', lang = ascii ''enm-GB''\<rparr>"

definition env_enm :: environment where
  "env_enm = \<lparr>API_KEY = Some (ascii ''secret''), SpeechRecognitionAPI = True,
              speechSynthesis = Some [voice_enm]\<rparr>"

definition mounted0 :: app where
  "mounted0 =
     \<lparr>conversation = [], selectedLanguage = SUPPORTED_LANGUAGES ! 0,
      isRecording = False, isProcessing = False, error = None,
      recognitionRef = Some \<lparr>rec_id = 0, rec_lang = ascii ''en-US'',
                             interimResults = True, continuous = False\<rparr>,
      recognitions_created = 1,
      documentLang = Some (ascii ''en''), documentDir = Some ltr,
      svc = \<lparr>ai = Some \<lparr>apiKey = ascii ''secret''\<rparr>, chat = Some chat0, created = 1\<rparr>,
      pending = [], timers = [], spoken = []\<rparr>"

definition french :: LanguageOption where
  "french = SUPPORTED_LANGUAGES ! 1"

text \<open>
  Three event sequences. In the first the provider fails on the one turn. In the second
  the user stops a recording and clicks again before the recogniser has ended, so
  \<open>start()\<close> throws and a retry is scheduled; the stopped recogniser then delivers its
  final result, the retry starts the new recogniser, and that one delivers a final result
  before the first reply has come. In the third, one turn gets its reply.
\<close>

definition provider_failure_trace :: "event list" where
  "provider_failure_trace =
     [RecordClick True,
      RecognitionResult (final_event (ascii ''Bonjour'')),
      RecognitionEnd,
      ChatSettled 0 (Inl (Error (ascii ''503 Service Unavailable'')))]"

definition double_turn_trace :: "event list" where
  "double_turn_trace =
     [RecordClick True, RecordClick True, RecordClick False,
      RecognitionResult (final_event (ascii ''a'')),
      TimerFired True,
      RecognitionResult (final_event (ascii ''b''))]"

definition reply_trace :: "event list" where
  "reply_trace =
     [RecordClick True,
      RecognitionResult (final_event (ascii ''Hello'')),
      RecognitionEnd,
      ChatSettled 0 (Inr (ascii ''Hi there''))]"

text \<open>
  A turn sent before any session exists (from the first render), and one sent by the
  mounted component.
\<close>

definition unsent :: app where
  "unsent = processAIResponse initial_state (ascii ''Bonjour'')"

definition sent :: app where
  "sent = processAIResponse mounted0 (ascii ''Bonjour'')"

section \<open>The chat service\<close>

lemma getSystemInstruction_template:
  "getSystemInstruction n = instantiate instruction_template n"
  by (simp add: getSystemInstruction_def instruction_template_def)

lemma getAI_configured:
  assumes "configured env sv"
  shows "\<exists>a. getAI env sv = Inr (a, sv\<lparr>ai := Some a\<rparr>)"
  using assms
  by (auto simp: configured_def api_key_absent_def getAI_def Let_def split: option.splits)

lemma startChatSession_configured:
  assumes "configured env sv"
  shows "\<exists>a. startChatSession env sv n =
           Inr (sv\<lparr>ai := Some a,
                   chat := Some \<lparr>chat_id = created sv, model = ascii ''gemini-2.5-flash'',
                                 systemInstruction = getSystemInstruction n\<rparr>,
                   created := Suc (created sv)\<rparr>)"
proof -
  from getAI_configured [OF assms] obtain a
    where "getAI env sv = Inr (a, sv\<lparr>ai := Some a\<rparr>)" ..
  then show ?thesis
    by (intro exI [of _ a]) (simp add: startChatSession_def)
qed

lemma configured_env0: "configured env0 sv"
  by (simp add: configured_def api_key_absent_def env0_def truthy_def ascii_def)

lemma not_initialized_neq_api_key_missing: "not_initialized \<noteq> api_key_missing"
  by (simp add: not_initialized_def api_key_missing_def ascii_def)

text \<open>
  C5. Creating a chat session for a language, on a service that can create sessions,
  leaves a session whose instructions are the fixed template with every gap filled by the
  language's display name; this holds for any option \<open>l\<close>, so for each supported one.
\<close>

theorem session_instructions_roundtrip:
  assumes "configured env sv"
  shows "\<exists>sv' c. startChatSession env sv (name l) = Inr sv' \<and> chat sv' = Some c \<and>
           systemInstruction c = instantiate instruction_template (name l)"
proof -
  from startChatSession_configured [OF assms, of "name l"] obtain a where
    "startChatSession env sv (name l) =
       Inr (sv\<lparr>ai := Some a,
               chat := Some \<lparr>chat_id = created sv, model = ascii ''gemini-2.5-flash'',
                             systemInstruction = getSystemInstruction (name l)\<rparr>,
               created := Suc (created sv)\<rparr>)" ..
  then show ?thesis by (simp add: getSystemInstruction_template)
qed

theorem session_instructions_roundtrip_witness:
  "configured env0 service_init \<and>
   (\<exists>sv' c. startChatSession env0 service_init (ascii ''Fran'' @ [0xE7] @ ascii ''ais'') = Inr sv' \<and>
      chat sv' = Some c \<and>
      systemInstruction c = instantiate instruction_template (ascii ''Fran'' @ [0xE7] @ ascii ''ais''))"
proof -
  have n: "name (SUPPORTED_LANGUAGES ! 1) = ascii ''Fran'' @ [0xE7] @ ascii ''ais''"
    by (simp add: SUPPORTED_LANGUAGES_def)
  from session_instructions_roundtrip [OF configured_env0, of service_init "SUPPORTED_LANGUAGES ! 1"]
  show ?thesis unfolding n using configured_env0 by blast
qed

text \<open>
  C9. With the credential absent: loading the module reads and throws nothing (both
  variables are null); a send before any session creation rejects with the
  not-initialised error, which is not the configuration error; the first session creation
  throws the configuration error; and once the client object exists, session creation no
  longer depends on the environment.
\<close>

theorem configuration_error_on_first_creation:
  assumes "api_key_absent env"
  shows "ai service_init = None \<and> chat service_init = None \<and>
         sendMessageToAI (chat service_init) msg outcome = Inl not_initialized \<and>
         not_initialized \<noteq> api_key_missing \<and>
         startChatSession env service_init languageName = Inl api_key_missing \<and>
         (\<forall>sv n. ai sv \<noteq> None \<longrightarrow> (\<exists>sv'. startChatSession env sv n = Inr sv'))"
  using assms not_initialized_neq_api_key_missing
  by (auto simp: api_key_absent_def service_init_def sendMessageToAI_def startChatSession_def
      getAI_def split: option.splits)

theorem configuration_error_on_first_creation_witness:
  "api_key_absent env_nokey \<and>
   startChatSession env_nokey service_init (ascii ''English'') = Inl api_key_missing \<and>
   sendMessageToAI (chat service_init) (ascii ''Hello'') (Inr (ascii ''Hi'')) = Inl not_initialized"
proof -
  have h: "api_key_absent env_nokey"
    by (simp add: api_key_absent_def env_nokey_def)
  from configuration_error_on_first_creation [OF h] show ?thesis using h by blast
qed

text \<open>
  C10. With a session (the module variable \<open>chat\<close> is not null), \<open>sendMessageToAI\<close>
  resolves: with the provider's text, or with the fixed string when the provider fails.
  It rejects only when there is no session, and then with the not-initialised error.
\<close>

theorem sendMessageToAI_rejects_only_uninitialized:
  "(ch \<noteq> None \<longrightarrow>
      (\<exists>reply. sendMessageToAI ch msg outcome = Inr reply \<and>
         (case outcome of Inl e \<Rightarrow> reply = client_apology | Inr t \<Rightarrow> reply = t))) \<and>
   (\<forall>e. sendMessageToAI ch msg outcome = Inl e \<longrightarrow> ch = None \<and> e = not_initialized) \<and>
   (ch = None \<longrightarrow> sendMessageToAI ch msg outcome = Inl not_initialized)"
  by (auto simp: sendMessageToAI_def split: option.splits sum.splits)

theorem sendMessageToAI_rejects_only_uninitialized_witness:
  "sendMessageToAI (Some chat0) (ascii ''Bonjour'') (Inl (Error (ascii ''quota exceeded''))) =
     Inr client_apology \<and>
   sendMessageToAI None (ascii ''Bonjour'') (Inr (ascii ''Salut'')) = Inl not_initialized"
  using sendMessageToAI_rejects_only_uninitialized
          [of "Some chat0" "ascii ''Bonjour''" "Inl (Error (ascii ''quota exceeded''))"]
        sendMessageToAI_rejects_only_uninitialized
          [of None "ascii ''Bonjour''" "Inr (ascii ''Salut'')"]
  by auto

section \<open>Speech output\<close>

lemma split_code_string: "split hyphen (code_string c) ! 0 = primary_subtag c"
  by (cases c) (simp_all add: primary_subtag_def hyphen_def ascii_def)

lemma mount_env_enm: "mount env_enm = Inr mounted0"
  by (simp add: mount_def languageEffect_def initial_state_def SUPPORTED_LANGUAGES_def
      startChatSession_def getAI_def env_enm_def truthy_def service_init_def setupRecognition_def
      mounted0_def chat0_def hyphen_def Let_def)
    (simp add: ascii_def)

lemma trim_Hello: "trim (ascii ''Hello'') \<noteq> []"
  by (simp add: trim_def ascii_def isWhiteSpace_def)

lemma handleRecognitionResult_final_event:
  "trim t \<noteq> [] \<Longrightarrow>
   handleRecognitionResult s (final_event t) =
     Some (processAIResponse (s\<lparr>conversation := conversation s @ [\<lparr>role = USER, msg_text = t\<rparr>]\<rparr>) t)"
  by (simp add: handleRecognitionResult_def final_event_def truthy_def)

text \<open>
  C7. The claim asks for the platform default voice when no voice has the code's locale
  and none has its primary language subtag. The code does not do that: on a platform
  whose only voice has locale \<open>enm-GB\<close>, the component mounts, takes one turn and gets
  its reply, and \<open>speak\<close> (which runs with \<open>en-US\<close>) puts that voice on the utterance,
  although its locale is not \<open>en-US\<close> and its primary subtag is \<open>enm\<close>, not \<open>en\<close>.
\<close>

theorem speak_prefix_overmatch:
  "mount env_enm = Inr mounted0 \<and>
   run env_enm mounted0 reply_trace =
     Inr (mounted0
       \<lparr>conversation :=
          [\<lparr>role = USER, msg_text = ascii ''Hello''\<rparr>,
           \<lparr>role = MODEL, msg_text = ascii ''Hi there''\<rparr>],
        spoken := [\<lparr>utter_text = ascii ''Hi there'', voice = Some voice_enm,
                    rate = 1, pitch = 1\<rparr>]\<rparr>) \<and>
   captured_code = en_US \<and>
   lang voice_enm \<noteq> code_string en_US \<and>
   split hyphen (lang voice_enm) ! 0 = ascii ''enm'' \<and>
   split hyphen (code_string en_US) ! 0 = ascii ''en'' \<and>
   ascii ''enm'' \<noteq> ascii ''en''"
  by (simp add: mount_env_enm reply_trace_def handleRecognitionResult_final_event trim_Hello)
    (simp add: mounted0_def handleRecordClick_def try_start_def processAIResponse_def
      processAIResponse_resume_def sendMessageToAI_def speak_def env_enm_def speak_voice_def
      captured_code_def SUPPORTED_LANGUAGES_def voice_enm_def ascii_def onend_def hyphen_def)

section \<open>Recognition results\<close>

lemma transcripts_eq:
  "transcripts rs =
     (if list_all (\<lambda>r. alternatives r \<noteq> []) rs
      then Some (map (\<lambda>r. transcript (hd (alternatives r))) rs)
      else None)"
  by (induction rs) (auto split: list.splits)

lemma transcripts_running_transcript:
  "map_option concat (transcripts (results ev)) = running_transcript ev"
  by (simp add: running_transcript_def transcripts_eq)

lemma handleRecognitionResult_starts:
  assumes "starts_turn ev"
  shows "\<exists>t. running_transcript ev = Some t \<and>
           handleRecognitionResult s ev =
             Some (processAIResponse
                     (s\<lparr>conversation := conversation s @ [\<lparr>role = USER, msg_text = t\<rparr>]\<rparr>) t)"
proof -
  from assms obtain t where t: "running_transcript ev = Some t" "trim t \<noteq> []"
    and f: "first_segment_final ev"
    by (auto simp: starts_turn_def split: option.splits)
  from t(1) obtain ts where ts: "transcripts (results ev) = Some ts" "concat ts = t"
    using transcripts_running_transcript [of ev] by (cases "transcripts (results ev)") auto
  from f obtain r0 rest where r: "results ev = r0 # rest" "isFinal r0"
    by (auto simp: first_segment_final_def split: list.splits)
  show ?thesis
    using t ts r by (simp add: handleRecognitionResult_def truthy_def)
qed

lemma handleRecognitionResult_ignores:
  assumes "\<not> starts_turn ev"
  shows "handleRecognitionResult s ev = None \<or> handleRecognitionResult s ev = Some s"
proof (cases "transcripts (results ev)")
  case None
  then show ?thesis by (simp add: handleRecognitionResult_def)
next
  case (Some ts)
  then have t: "running_transcript ev = Some (concat ts)"
    using transcripts_running_transcript [of ev] by simp
  show ?thesis
  proof (cases "results ev")
    case Nil
    then show ?thesis using Some by (simp add: handleRecognitionResult_def)
  next
    case (Cons r0 rest)
    with assms t have "\<not> (isFinal r0 \<and> truthy (trim (concat ts)))"
      by (auto simp: starts_turn_def first_segment_final_def truthy_def)
    then show ?thesis using Some Cons by (auto simp: handleRecognitionResult_def)
  qed
qed

text \<open>
  C4. A recognition event makes the controller append a USER message with the running
  transcript and send that text to the chat client if and only if the event starts a
  turn (first result final, trimmed running transcript not empty); every other event,
  a final whitespace-only one included, leaves the state as it was.
\<close>

theorem user_turn_iff_final_nonempty:
  "(starts_turn ev \<longrightarrow>
      (\<exists>t s'. running_transcript ev = Some t \<and>
         step env s (RecognitionResult ev) = Inr s' \<and>
         conversation s' = conversation s @ [\<lparr>role = USER, msg_text = t\<rparr>] \<and>
         pending s' = pending s @ [\<lparr>sent_text = t, sent_chat = chat (svc s)\<rparr>])) \<and>
   (\<not> starts_turn ev \<longrightarrow> step env s (RecognitionResult ev) = Inr s)"
proof (intro conjI impI)
  assume "starts_turn ev"
  from handleRecognitionResult_starts [OF this, of s]
  show "\<exists>t s'. running_transcript ev = Some t \<and>
         step env s (RecognitionResult ev) = Inr s' \<and>
         conversation s' = conversation s @ [\<lparr>role = USER, msg_text = t\<rparr>] \<and>
         pending s' = pending s @ [\<lparr>sent_text = t, sent_chat = chat (svc s)\<rparr>]"
    by (auto simp: processAIResponse_def)
next
  assume "\<not> starts_turn ev"
  from handleRecognitionResult_ignores [OF this, of s]
  show "step env s (RecognitionResult ev) = Inr s" by auto
qed

lemma starts_turn_final_event: "starts_turn (final_event t) \<longleftrightarrow> trim t \<noteq> []"
  by (simp add: starts_turn_def final_event_def first_segment_final_def running_transcript_def)

lemma trim_spaces: "trim (ascii ''   '') = []"
  by (simp add: trim_def ascii_def isWhiteSpace_def)

lemma trim_Bonjour: "trim (ascii ''Bonjour'') \<noteq> []"
  by (simp add: trim_def ascii_def isWhiteSpace_def)

theorem user_turn_iff_final_nonempty_witness:
  "starts_turn (final_event (ascii ''Bonjour'')) \<and>
   (\<exists>s'. step env0 initial_state (RecognitionResult (final_event (ascii ''Bonjour''))) = Inr s' \<and>
      conversation s' = [\<lparr>role = USER, msg_text = ascii ''Bonjour''\<rparr>] \<and>
      pending s' = [\<lparr>sent_text = ascii ''Bonjour'', sent_chat = None\<rparr>]) \<and>
   \<not> starts_turn (final_event (ascii ''   '')) \<and>
   step env0 initial_state (RecognitionResult (final_event (ascii ''   ''))) = Inr initial_state"
proof -
  have a: "starts_turn (final_event (ascii ''Bonjour''))"
    by (simp add: starts_turn_final_event trim_Bonjour)
  have b: "\<not> starts_turn (final_event (ascii ''   ''))"
    by (simp add: starts_turn_final_event trim_spaces)
  have r: "running_transcript (final_event (ascii ''Bonjour'')) = Some (ascii ''Bonjour'')"
    by (simp add: running_transcript_def final_event_def)
  have i: "conversation initial_state = []" "pending initial_state = []"
    "chat (svc initial_state) = None"
    by (simp_all add: initial_state_def service_init_def)
  from user_turn_iff_final_nonempty [of "final_event (ascii ''Bonjour'')" env0 initial_state]
    user_turn_iff_final_nonempty [of "final_event (ascii ''   '')" env0 initial_state]
  show ?thesis using a b r i by auto
qed

section \<open>The record button\<close>

text \<open>
  C6. In IDLE, with a recognition object and no retry waiting, a click whose \<open>start()\<close>
  throws builds a new recognition object and schedules one retry, 250 ms later, staying
  IDLE with the error as it was. The retry calls \<open>start()\<close> on the new object: if it
  returns, the state is RECORDING with the error cleared; if it throws again, the
  microphone error is shown and the state is IDLE. Either way no timer is left and a
  further timer event changes nothing, so nothing further is tried.
\<close>

theorem start_refused_retries_once:
  assumes "idle s" and "timers s = []"
    and "recognitionRef s \<noteq> None" and "SpeechRecognitionAPI env"
  shows "\<exists>s1 s2 s3.
           run env s [RecordClick False] = Inr s1 \<and>
           recognitionRef s1 =
             Some \<lparr>rec_id = recognitions_created s,
                   rec_lang = code_string (code (selectedLanguage s)),
                   interimResults = True, continuous = False\<rparr> \<and>
           recognitions_created s1 = Suc (recognitions_created s) \<and>
           timers s1 = [250] \<and> idle s1 \<and> error s1 = error s \<and>
           run env s [RecordClick False, TimerFired False] = Inr s2 \<and>
           s2 = s1\<lparr>timers := [], error := Some microphone_error\<rparr> \<and>
           error s2 = Some microphone_error \<and> idle s2 \<and> timers s2 = [] \<and>
           (\<forall>b. run env s2 [TimerFired b] = Inr s2) \<and>
           run env s [RecordClick False, TimerFired True] = Inr s3 \<and>
           s3 = s1\<lparr>timers := [], isRecording := True, error := None\<rparr> \<and>
           isRecording s3 \<and> \<not> isProcessing s3 \<and> error s3 = None \<and> timers s3 = [] \<and>
           (\<forall>b. run env s3 [TimerFired b] = Inr s3)"
  using assms
  by (auto simp: idle_def handleRecordClick_def try_start_def setupRecognition_def
      retry_callback_def Let_def)

lemma idle_mounted0: "idle mounted0" "timers mounted0 = []" "recognitionRef mounted0 \<noteq> None"
  "SpeechRecognitionAPI env0"
  by (simp_all add: idle_def mounted0_def env0_def)

theorem start_refused_retries_once_witness:
  "idle mounted0 \<and> timers mounted0 = [] \<and> recognitionRef mounted0 \<noteq> None \<and>
   SpeechRecognitionAPI env0 \<and>
   (\<exists>s1 s2 s3. run env0 mounted0 [RecordClick False] = Inr s1 \<and> timers s1 = [250] \<and> idle s1 \<and>
      run env0 mounted0 [RecordClick False, TimerFired False] = Inr s2 \<and>
      error s2 = Some microphone_error \<and> idle s2 \<and> timers s2 = [] \<and>
      run env0 mounted0 [RecordClick False, TimerFired True] = Inr s3 \<and>
      isRecording s3 \<and> error s3 = None \<and> timers s3 = [])"
  using start_refused_retries_once [OF idle_mounted0] idle_mounted0 by blast

section \<open>Clearing and switching language\<close>

text \<open>
  C8. A clear click, on a service that can create sessions, empties the log and installs a
  new chat object for the selected language; nothing else in the state changes, in
  particular not the selected language, the document locale or the text direction.
\<close>

theorem clear_resets_log_and_session_only:
  assumes "configured env (svc s)"
  shows "\<exists>s' sv.
           handleClearConversation env s = Inr s' \<and>
           s' = s\<lparr>conversation := [], svc := sv\<rparr> \<and>
           conversation s' = [] \<and>
           chat (svc s') =
             Some \<lparr>chat_id = created (svc s), model = ascii ''gemini-2.5-flash'',
                   systemInstruction = getSystemInstruction (name (selectedLanguage s))\<rparr> \<and>
           (session_ids_fresh (svc s) \<longrightarrow> chat (svc s') \<noteq> chat (svc s)) \<and>
           selectedLanguage s' = selectedLanguage s \<and>
           documentLang s' = documentLang s \<and>
           documentDir s' = documentDir s"
proof -
  from startChatSession_configured [OF assms, of "name (selectedLanguage s)"] obtain a where
    st: "startChatSession env (svc s) (name (selectedLanguage s)) =
       Inr ((svc s)\<lparr>ai := Some a,
               chat := Some \<lparr>chat_id = created (svc s), model = ascii ''gemini-2.5-flash'',
                             systemInstruction = getSystemInstruction (name (selectedLanguage s))\<rparr>,
               created := Suc (created (svc s))\<rparr>)" ..
  show ?thesis
    by (auto simp: handleClearConversation_def st session_ids_fresh_def split: option.splits)
qed

lemma configured_mounted0: "configured env_nokey (svc mounted0)"
  by (simp add: configured_def mounted0_def)

theorem clear_resets_log_and_session_only_witness:
  "configured env_nokey (svc mounted0) \<and> session_ids_fresh (svc mounted0) \<and>
   (\<exists>s'. handleClearConversation env_nokey mounted0 = Inr s' \<and> conversation s' = [] \<and>
      chat (svc s') \<noteq> chat (svc mounted0) \<and>
      selectedLanguage s' = selectedLanguage mounted0 \<and>
      documentLang s' = documentLang mounted0 \<and> documentDir s' = documentDir mounted0)"
proof -
  have f: "session_ids_fresh (svc mounted0)"
    by (simp add: session_ids_fresh_def mounted0_def chat0_def)
  from clear_resets_log_and_session_only [OF configured_mounted0]
  show ?thesis using f configured_mounted0 by blast
qed

lemma mount_env0: "mount env0 = Inr mounted0"
  by (simp add: mount_def languageEffect_def initial_state_def SUPPORTED_LANGUAGES_def
      startChatSession_def getAI_def env0_def truthy_def service_init_def setupRecognition_def
      mounted0_def chat0_def hyphen_def Let_def)
    (simp add: ascii_def)

lemma startChatSession_live:
  assumes "live sv"
  shows "\<exists>sv'. startChatSession env sv n = Inr sv' \<and> live sv' \<and>
           chat sv' = Some \<lparr>chat_id = created sv, model = ascii ''gemini-2.5-flash'',
                             systemInstruction = getSystemInstruction n\<rparr> \<and>
           chat sv' \<noteq> chat sv"
  using assms
  by (auto simp: live_def session_ids_fresh_def startChatSession_def getAI_def
      split: option.splits)

lemma selectLanguage_live:
  assumes "live (svc s)" and "l \<noteq> selectedLanguage s"
  shows "\<exists>s'. selectLanguage env s l = Inr s' \<and> live (svc s') \<and>
           conversation s' = [] \<and> selectedLanguage s' = l \<and>
           chat (svc s') = Some \<lparr>chat_id = created (svc s), model = ascii ''gemini-2.5-flash'',
                                  systemInstruction = getSystemInstruction (name l)\<rparr> \<and>
           chat (svc s') \<noteq> chat (svc s) \<and>
           documentLang s' = Some (primary_subtag (code l)) \<and>
           documentDir s' = Some (dir l)"
proof -
  from startChatSession_live [OF assms(1), of env "name l"] obtain sv' where
    sv: "startChatSession env (svc s) (name l) = Inr sv'" "live sv'"
      "chat sv' = Some \<lparr>chat_id = created (svc s), model = ascii ''gemini-2.5-flash'',
                             systemInstruction = getSystemInstruction (name l)\<rparr>"
      "chat sv' \<noteq> chat (svc s)"
    by blast
  show ?thesis
    using assms(2) sv
    by (simp add: selectLanguage_def languageEffect_def setupRecognition_def Let_def
        split_code_string)
qed

lemma svc_setupRecognition [simp]: "svc (setupRecognition env s) = svc s"
  by (simp add: setupRecognition_def)

lemma svc_handleRecordClick [simp]: "svc (handleRecordClick env s b) = svc s"
  by (simp add: handleRecordClick_def Let_def)

lemma svc_retry_callback [simp]: "svc (retry_callback s b) = svc s"
  by (simp add: retry_callback_def Let_def)

lemma svc_speak [simp]: "svc (speak env c s t) = svc s"
  by (simp add: speak_def split: option.splits)

lemma svc_resume [simp]: "svc (processAIResponse_resume env s i outcome) = svc s"
  by (simp add: processAIResponse_resume_def Let_def split: sum.splits)

lemma svc_handleRecognitionResult:
  "handleRecognitionResult s ev = Some s' \<Longrightarrow> svc s' = svc s"
  by (auto simp: handleRecognitionResult_def processAIResponse_def Let_def
      split: option.splits list.splits if_splits)

lemma step_live:
  assumes "live (svc s)"
  shows "\<exists>s'. step env s ev = Inr s' \<and> live (svc s')"
proof (cases ev)
  case (RecognitionResult e)
  then show ?thesis using assms
    by (auto dest: svc_handleRecognitionResult split: option.splits)
next
  case (LanguageChange l)
  show ?thesis
  proof (cases "l = selectedLanguage s")
    case True
    then show ?thesis using assms LanguageChange by (simp add: selectLanguage_def)
  next
    case False
    from selectLanguage_live [OF assms False, of env] show ?thesis
      using LanguageChange by auto
  qed
next
  case ClearClick
  from startChatSession_live [OF assms, of env "name (selectedLanguage s)"]
  show ?thesis using ClearClick
    by (auto simp: handleClearConversation_def)
qed (use assms in \<open>simp_all add: onend_def onerror_def\<close>)

lemma run_live:
  assumes "live (svc s)"
  shows "\<exists>s'. run env s evs = Inr s' \<and> live (svc s')"
  using assms
proof (induction evs arbitrary: s)
  case Nil
  then show ?case by simp
next
  case (Cons ev evs)
  from step_live [OF Cons.prems, of env ev] obtain s1
    where "step env s ev = Inr s1" "live (svc s1)" by blast
  with Cons.IH [of s1] show ?case by simp
qed

lemma run_append:
  "run env s (xs @ ys) = (case run env s xs of Inl x \<Rightarrow> Inl x | Inr s' \<Rightarrow> run env s' ys)"
  by (induction xs arbitrary: s) (auto split: sum.splits)

lemma mount_live:
  assumes "mount env = Inr s0"
  shows "live (svc s0)"
  using assms
  by (auto simp: mount_def languageEffect_def Let_def startChatSession_def getAI_def live_def
      session_ids_fresh_def initial_state_def service_init_def
      split: sum.splits option.splits if_splits)

text \<open>
  C3. After the component has mounted, and after any events whatever, selecting a
  language other than the current one ends with an empty log, a new chat object carrying
  the new language's instructions in place of the previous one, and the document's
  \<open>lang\<close> and \<open>dir\<close> set from the new language.
\<close>

theorem language_switch_resets:
  assumes "mount env = Inr s0"
  shows "\<exists>s1. run env s0 evs = Inr s1 \<and>
           (l \<noteq> selectedLanguage s1 \<longrightarrow>
              (\<exists>s2. run env s0 (evs @ [LanguageChange l]) = Inr s2 \<and>
                 conversation s2 = [] \<and> selectedLanguage s2 = l \<and>
                 chat (svc s2) =
                   Some \<lparr>chat_id = created (svc s1), model = ascii ''gemini-2.5-flash'',
                         systemInstruction = getSystemInstruction (name l)\<rparr> \<and>
                 chat (svc s2) \<noteq> chat (svc s1) \<and>
                 documentLang s2 = Some (primary_subtag (code l)) \<and>
                 documentDir s2 = Some (dir l)))"
proof -
  from run_live [OF mount_live [OF assms], of env evs] obtain s1
    where s1: "run env s0 evs = Inr s1" "live (svc s1)" by blast
  show ?thesis
  proof (rule exI [of _ s1], intro conjI impI)
    show "run env s0 evs = Inr s1" by (rule s1(1))
  next
    assume "l \<noteq> selectedLanguage s1"
    from selectLanguage_live [OF s1(2) this, of env]
    show "\<exists>s2. run env s0 (evs @ [LanguageChange l]) = Inr s2 \<and>
                 conversation s2 = [] \<and> selectedLanguage s2 = l \<and>
                 chat (svc s2) =
                   Some \<lparr>chat_id = created (svc s1), model = ascii ''gemini-2.5-flash'',
                         systemInstruction = getSystemInstruction (name l)\<rparr> \<and>
                 chat (svc s2) \<noteq> chat (svc s1) \<and>
                 documentLang s2 = Some (primary_subtag (code l)) \<and>
                 documentDir s2 = Some (dir l)"
      by (auto simp: run_append s1(1))
  qed
qed

lemma selectedLanguage_handleRecognitionResult:
  "handleRecognitionResult s ev = Some s' \<Longrightarrow> selectedLanguage s' = selectedLanguage s"
  by (auto simp: handleRecognitionResult_def processAIResponse_def Let_def
      split: option.splits list.splits if_splits)

theorem language_switch_resets_witness:
  "mount env0 = Inr mounted0 \<and>
   (\<exists>s1 s2. run env0 mounted0
        [RecordClick True, RecognitionResult (final_event (ascii ''Bonjour''))] = Inr s1 \<and>
      conversation s1 \<noteq> [] \<and> french \<noteq> selectedLanguage s1 \<and>
      run env0 mounted0
        ([RecordClick True, RecognitionResult (final_event (ascii ''Bonjour''))] @
         [LanguageChange french]) = Inr s2 \<and>
      conversation s2 = [] \<and> selectedLanguage s2 = french \<and>
      chat (svc s2) \<noteq> chat (svc s1) \<and>
      documentLang s2 = Some (ascii ''fr'') \<and> documentDir s2 = Some ltr)"
proof -
  let ?evs = "[RecordClick True, RecognitionResult (final_event (ascii ''Bonjour''))]"
  have st: "starts_turn (final_event (ascii ''Bonjour''))"
    by (simp add: starts_turn_final_event trim_Bonjour)
  from handleRecognitionResult_starts [OF st] obtain t where
    h: "handleRecognitionResult (handleRecordClick env0 mounted0 True)
          (final_event (ascii ''Bonjour'')) =
        Some (processAIResponse
               ((handleRecordClick env0 mounted0 True)
                  \<lparr>conversation := conversation (handleRecordClick env0 mounted0 True) @
                     [\<lparr>role = USER, msg_text = t\<rparr>]\<rparr>) t)"
    by blast
  have p: "\<not> isProcessing mounted0" by (simp add: mounted0_def)
  obtain s1 where s1: "run env0 mounted0 ?evs = Inr s1" "conversation s1 \<noteq> []"
    "selectedLanguage s1 = selectedLanguage mounted0"
    using h p by (simp add: processAIResponse_def handleRecordClick_def Let_def
        setupRecognition_def)
  have ne: "french \<noteq> selectedLanguage s1"
    by (simp add: s1(3) mounted0_def french_def SUPPORTED_LANGUAGES_def)
  have f: "primary_subtag (code french) = ascii ''fr''" "dir french = ltr"
    by (simp_all add: french_def SUPPORTED_LANGUAGES_def primary_subtag_def)
  from language_switch_resets [OF mount_env0, of ?evs french]
  show ?thesis using s1 ne f mount_env0 by auto
qed

section \<open>Turns and the chat client\<close>

lemma apologies_differ: "client_apology \<noteq> controller_apology"
  by (simp add: client_apology_def controller_apology_def ascii_def)

text \<open>
  C1, as stated, fails when the provider fails on an existing session: the client
  resolves with its own fixed string, so the controller appends that string (not the
  placeholder of its \<open>catch\<close> branch), sets no error, and hands the string to speech output.
\<close>

theorem provider_failure_counterexample:
  "mount env0 = Inr mounted0 \<and>
   run env0 mounted0 provider_failure_trace =
     Inr (mounted0
       \<lparr>conversation :=
          [\<lparr>role = USER, msg_text = ascii ''Bonjour''\<rparr>,
           \<lparr>role = MODEL, msg_text = client_apology\<rparr>],
        spoken := [\<lparr>utter_text = client_apology, voice = Some voice_en, rate = 1, pitch = 1\<rparr>]\<rparr>) \<and>
   error (state_of (run env0 mounted0 provider_failure_trace)) = None \<and>
   client_apology \<noteq> controller_apology"
  by (simp add: mount_env0 apologies_differ provider_failure_trace_def
      handleRecognitionResult_final_event trim_Bonjour state_of_def)
    (simp add: mounted0_def handleRecordClick_def try_start_def processAIResponse_def
      processAIResponse_resume_def sendMessageToAI_def speak_def env0_def speak_voice_def
      captured_code_def SUPPORTED_LANGUAGES_def voice_en_def ascii_def onend_def)

text \<open>
  C1, amended. When an outstanding call settles, \<open>sendMessageToAI\<close> rejects exactly when
  there was no session at the call. Then the controller appends one MODEL message with
  the placeholder, shows the rejection's message as the error, speaks nothing and leaves
  PROCESSING. When there was a session and the provider fails, the controller appends
  the client's fixed string as the MODEL message, leaves the error as it was and hands
  that string to \<open>speak\<close>.
\<close>

theorem rejected_turn_gets_apology:
  assumes "i < length (pending s)"
    and "p = pending s ! i"
    and "s' = processAIResponse_resume env s i outcome"
  shows "((\<exists>e. sendMessageToAI (sent_chat p) (sent_text p) outcome = Inl e) \<longleftrightarrow>
            sent_chat p = None) \<and>
         (sent_chat p = None \<longrightarrow>
            conversation s' = conversation s @ [\<lparr>role = MODEL, msg_text = controller_apology\<rparr>] \<and>
            error s' = Some (message not_initialized) \<and>
            spoken s' = spoken s \<and> \<not> isProcessing s') \<and>
         (sent_chat p \<noteq> None \<longrightarrow>
            (\<forall>e. outcome = Inl e \<longrightarrow>
               conversation s' = conversation s @ [\<lparr>role = MODEL, msg_text = client_apology\<rparr>] \<and>
               error s' = error s \<and>
               spoken s' = spoken (speak env captured_code s client_apology) \<and>
               \<not> isProcessing s'))"
proof -
  have t: "truthy (message not_initialized)"
    by (simp add: not_initialized_def truthy_def ascii_def)
  show ?thesis
    using assms t
    by (auto simp: processAIResponse_resume_def sendMessageToAI_def Let_def speak_def
        split: option.splits sum.splits)
qed

theorem rejected_turn_gets_apology_witness:
  "0 < length (pending unsent) \<and> sent_chat (pending unsent ! 0) = None \<and>
   conversation (processAIResponse_resume env0 unsent 0 (Inr (ascii ''Salut''))) =
     [\<lparr>role = MODEL, msg_text = controller_apology\<rparr>] \<and>
   error (processAIResponse_resume env0 unsent 0 (Inr (ascii ''Salut''))) =
     Some (message not_initialized) \<and>
   spoken (processAIResponse_resume env0 unsent 0 (Inr (ascii ''Salut''))) = [] \<and>
   0 < length (pending sent) \<and> sent_chat (pending sent ! 0) \<noteq> None \<and>
   conversation (processAIResponse_resume env0 sent 0 (Inl (Error (ascii ''503'')))) =
     [\<lparr>role = MODEL, msg_text = client_apology\<rparr>] \<and>
   error (processAIResponse_resume env0 sent 0 (Inl (Error (ascii ''503'')))) = None"
proof -
  have u: "0 < length (pending unsent)" "sent_chat (pending unsent ! 0) = None"
    "conversation unsent = []" "spoken unsent = []"
    by (simp_all add: unsent_def processAIResponse_def initial_state_def service_init_def)
  have v: "0 < length (pending sent)" "sent_chat (pending sent ! 0) \<noteq> None"
    "conversation sent = []" "error sent = None"
    by (simp_all add: sent_def processAIResponse_def mounted0_def)
  from rejected_turn_gets_apology
    [where s = unsent and i = 0 and env = env0 and outcome = "Inr (ascii ''Salut'')",
     OF u(1) refl refl] u
  have 1: "conversation (processAIResponse_resume env0 unsent 0 (Inr (ascii ''Salut''))) =
     [\<lparr>role = MODEL, msg_text = controller_apology\<rparr>]"
   "error (processAIResponse_resume env0 unsent 0 (Inr (ascii ''Salut''))) =
     Some (message not_initialized)"
   "spoken (processAIResponse_resume env0 unsent 0 (Inr (ascii ''Salut''))) = []"
    by simp_all
  from rejected_turn_gets_apology
    [where s = sent and i = 0 and env = env0 and outcome = "Inl (Error (ascii ''503''))",
     OF v(1) refl refl] v
  have 2: "conversation (processAIResponse_resume env0 sent 0 (Inl (Error (ascii ''503'')))) =
     [\<lparr>role = MODEL, msg_text = client_apology\<rparr>]"
   "error (processAIResponse_resume env0 sent 0 (Inl (Error (ascii ''503'')))) = None"
    by simp_all
  show ?thesis by (intro conjI u(1,2) v(1,2) 1 2)
qed

lemma trim_a: "trim (ascii ''a'') \<noteq> []" "trim (ascii ''b'') \<noteq> []"
  by (simp_all add: trim_def ascii_def isWhiteSpace_def)

text \<open>
  C2. The claim asks that no turn be sent while an earlier one is unanswered, and the
  record button is disabled in PROCESSING to that end. The code does not hold it on the
  second event sequence: after four events one call is outstanding and \<open>isProcessing\<close> is
  set, where a click on the record button would change nothing; the retry timer, which
  does not look at \<open>isProcessing\<close>, then starts a recording all the same, and its final
  result sends a second turn, so that two calls are outstanding.
\<close>

theorem retry_timer_starts_second_call:
  "mount env0 = Inr mounted0 \<and>
   outstanding (run env0 mounted0 (take 4 double_turn_trace)) = 1 \<and>
   isProcessing (state_of (run env0 mounted0 (take 4 double_turn_trace))) \<and>
   \<not> isRecording (state_of (run env0 mounted0 (take 4 double_turn_trace))) \<and>
   step env0 (state_of (run env0 mounted0 (take 4 double_turn_trace))) (RecordClick True) =
     run env0 mounted0 (take 4 double_turn_trace) \<and>
   isRecording (state_of (run env0 mounted0 (take 5 double_turn_trace))) \<and>
   isProcessing (state_of (run env0 mounted0 (take 5 double_turn_trace))) \<and>
   outstanding (run env0 mounted0 double_turn_trace) = 2 \<and>
   map sent_text (pending (state_of (run env0 mounted0 double_turn_trace))) =
     [ascii ''a'', ascii ''b'']"
  by (simp add: mount_env0 double_turn_trace_def handleRecognitionResult_final_event trim_a
      outstanding_def state_of_def)
    (simp add: mounted0_def handleRecordClick_def try_start_def processAIResponse_def
      retry_callback_def setupRecognition_def env0_def Let_def)

end
